theory Spec2Isabelle
  imports Main
begin

section \<open>serverless-ruby-package: the plugin of \<open>src/index.js\<close>\<close>

text \<open>
  The plugin is one JavaScript class, \<open>PackageRubyBundlePlugin\<close>. Its hook
  \<open>beforePackage\<close> writes include and exclude patterns into the package description of
  the host framework, asks Bundler for the list of gems, and (when configured) rebuilds
  the bundle inside a docker container (\<open>nativeLinuxBundle\<close>).

  The embedding keeps the parts of the program apart by how the code treats them:
  \<^item> \<open>host\<close>: what the code only reads (the service description, the process
    environment, and the behaviour of the outside world: the exit status and output of
    each shell command, \<open>JSON.parse\<close>, \<open>path.join\<close>);
  \<^item> \<open>state\<close>: what the code writes (the package description, the shell commands
    issued so far, the log lines printed so far, the container objects allocated).
  Every \<open>execSync\<close> that throws is a value \<open>Inl e\<close>; a function that can throw returns
  \<open>(error + 'a) \<times> state\<close>, the state being the one reached when the exception leaves.
\<close>

subsection \<open>JavaScript values\<close>

text \<open>
  Configuration values come from the service file and are used by the code through
  truthiness tests (\<open>if (this.config.standalone)\<close>) and template literals
  (\<open>`docker rm ${tempContainer.name}`\<close>). \<open>JObj a\<close> is a reference to the container
  object at address \<open>a\<close> of the store. Numbers are left out: no option of the plugin is
  a number.
\<close>

datatype jsval = JUndefined | JNull | JBool bool | JStr string | JObj nat

fun truthy :: "jsval \<Rightarrow> bool" where
  "truthy JUndefined = False"
| "truthy JNull = False"
| "truthy (JBool b) = b"
| "truthy (JStr s) = (s \<noteq> [])"
| "truthy (JObj a) = True"

text \<open>What a template literal \<open>${v}\<close> inserts.\<close>

fun toString :: "jsval \<Rightarrow> string" where
  "toString JUndefined = ''undefined''"
| "toString JNull = ''null''"
| "toString (JBool b) = (if b then ''true'' else ''false'')"
| "toString (JStr s) = s"
| "toString (JObj a) = ''[object Object]''"

text \<open>Decimal digits of a length, for \<open>`Packaging ${gems.length} gems`\<close>.\<close>

fun show_nat :: "nat \<Rightarrow> string" where
  "show_nat n =
     (if n < 10 then [''0123456789'' ! n]
      else show_nat (n div 10) @ [''0123456789'' ! (n mod 10)])"

declare show_nat.simps [simp del]

text \<open>\<open>Array.prototype.join\<close>.\<close>

fun join :: "string \<Rightarrow> string list \<Rightarrow> string" where
  "join sep [] = []"
| "join sep [x] = x"
| "join sep (x # y # ys) = x @ sep @ join sep (y # ys)"

subsection \<open>Data\<close>

text \<open>
  One entry of the array that the Ruby script of \<open>beforePackage\<close> prints
  (\<open>extensions: !!gem.extensions.any?\<close>, \<open>name: gem.full_name\<close>, \<open>path\<close>, \<open>gemspec\<close>):
  a boolean and three strings. Output that is no JSON at all makes \<open>JSON.parse\<close> throw;
  JSON of another shape than an array of such entries is outside the model.
\<close>

record gem =
  gem_extensions :: bool
  gem_name :: string
  gem_path :: string
  gem_gemspec :: string

text \<open>
  \<open>serverless.service.custom.rubyPackage\<close>: the options the user has written. A key that
  is absent is \<open>None\<close>; \<open>Object.assign\<close> copies the keys that are present.
\<close>

record user_config =
  u_alwaysCrossCompileExtensions :: "jsval option"
  u_debug :: "jsval option"
  u_gemfilePath :: "jsval option"
  u_containerName :: "jsval option"
  u_containerPath :: "jsval option"
  u_withoutGroups :: "jsval option"
  u_withGroups :: "jsval option"
  u_standalone :: "jsval option"
  u_dockerImage :: "jsval option"
  u_excludeGemTests :: "jsval option"
  u_tempContainer :: "jsval option"

text \<open>The object that the getter \<open>config\<close> returns.\<close>

record config_obj =
  alwaysCrossCompileExtensions :: jsval
  debug :: jsval
  gemfilePath :: jsval
  containerName :: jsval
  containerPath :: jsval
  withoutGroups :: jsval
  withGroups :: jsval
  standalone :: jsval
  dockerImage :: jsval
  excludeGemTests :: jsval
  cfg_tempContainer :: jsval

text \<open>The object literal \<open>{name, path, image}\<close> of \<open>tempContainer\<close>.\<close>

record container =
  ct_name :: jsval
  ct_path :: jsval
  ct_image :: jsval

text \<open>
  \<open>serverless.service.package\<close>, as far as the plugin touches it: the properties
  \<open>excludeDevDependencies\<close>, \<open>exclude\<close> and \<open>include\<close>. The include list is an array
  when the hook starts (the hook calls \<open>push\<close> on it) and may hold patterns of the user.
\<close>

record package_surface =
  excludeDevDependencies :: jsval
  pkg_exclude :: "string list"
  pkg_include :: "string list"

datatype exec_result = ExitNonZero | ExitZero string

text \<open>
  \<open>ExecError c\<close>: \<open>execSync\<close> threw while running the command \<open>c\<close>.
  \<open>JSONSyntaxError\<close>: \<open>JSON.parse\<close> threw.
\<close>

datatype error = ExecError string | JSONSyntaxError

text \<open>
  What the code reads and never writes. \<open>shell\<close> is the outside world: given the
  commands run so far and the next command, whether \<open>execSync\<close> returns (with which
  output) or throws; the script and the environment that the hook passes to
  \<open>bundle exec ruby\<close> are part of what \<open>shell\<close> answers to that command.
  \<open>JSON_parse\<close> is \<open>JSON.parse\<close> followed by the reading of the four properties of each
  entry, \<open>None\<close> when it throws. \<open>path_join\<close> is \<open>path.join\<close> of Node.
  \<open>rubyPackage = None\<close> stands for a missing or falsy \<open>custom.rubyPackage\<close>.
\<close>

record host =
  servicePath :: string
  path_join :: "string \<Rightarrow> string \<Rightarrow> string"
  rubyPackage :: "user_config option"
  provider_name :: string
  runtime :: string
  platform :: string
  env_SRP_DEBUG :: "string option"
  env_CROSS_COMPILE_EXTENSIONS :: "string option"
  shell :: "string list \<Rightarrow> string \<Rightarrow> exec_result"
  JSON_parse :: "string \<Rightarrow> gem list option"

text \<open>
  What the code writes. \<open>heap\<close> holds the container objects; the address of an object
  is its position.
\<close>

record state =
  package :: package_surface
  cmds :: "string list"
  logs :: "string list"
  heap :: "container list"

subsection \<open>The getter \<open>config\<close> (lines 8 to 41)\<close>

text \<open>
  The regular expression \<open>/^(?:y|yes|true|1|on)$/i\<close>: the whole string is one of the five
  words, letters compared without case.
\<close>

definition lower_ascii :: "char \<Rightarrow> char" where
  "lower_ascii c =
     (if 65 \<le> (of_char c :: nat) \<and> (of_char c :: nat) \<le> 90
      then char_of ((of_char c :: nat) + 32) else c)"

definition affirmative :: "string \<Rightarrow> bool" where
  "affirmative s = (map lower_ascii s \<in> set [''y'', ''yes'', ''true'', ''1'', ''on''])"

text \<open>\<open>Object.assign(defaults, user)\<close> on one key.\<close>

definition assign :: "jsval \<Rightarrow> user_config option \<Rightarrow> (user_config \<Rightarrow> jsval option) \<Rightarrow> jsval" where
  "assign dflt u key =
     (case u of None \<Rightarrow> dflt
      | Some uc \<Rightarrow> (case key uc of None \<Rightarrow> dflt | Some v \<Rightarrow> v))"

text \<open>
  Each evaluation of \<open>this.config\<close> builds a new object from the defaults, the user's
  options and the environment; nothing of it is kept between two evaluations.
\<close>

definition config :: "host \<Rightarrow> config_obj" where
  "config H =
     (let cfg = \<lparr>
        alwaysCrossCompileExtensions =
          assign (JBool True) (rubyPackage H) u_alwaysCrossCompileExtensions,
        debug =
          assign (JBool (case env_SRP_DEBUG H of None \<Rightarrow> False | Some v \<Rightarrow> v \<noteq> []))
            (rubyPackage H) u_debug,
        gemfilePath =
          assign (JStr (path_join H (servicePath H) ''Gemfile'')) (rubyPackage H) u_gemfilePath,
        containerName =
          assign (JStr ''serverless-ruby-package.packaged-gems'') (rubyPackage H) u_containerName,
        containerPath = assign (JStr ''/var/task'') (rubyPackage H) u_containerPath,
        withoutGroups = assign (JStr ''test development deploy'') (rubyPackage H) u_withoutGroups,
        withGroups = assign (JBool False) (rubyPackage H) u_withGroups,
        standalone = assign (JBool False) (rubyPackage H) u_standalone,
        dockerImage = assign (JBool False) (rubyPackage H) u_dockerImage,
        excludeGemTests = assign (JBool True) (rubyPackage H) u_excludeGemTests,
        cfg_tempContainer = assign JUndefined (rubyPackage H) u_tempContainer \<rparr>
      in case env_CROSS_COMPILE_EXTENSIONS H of
           None \<Rightarrow> cfg
         | Some v \<Rightarrow> cfg\<lparr>alwaysCrossCompileExtensions := JBool (affirmative v)\<rparr>)"

subsection \<open>Logging, shell commands, the include list\<close>

definition log :: "string \<Rightarrow> state \<Rightarrow> state" where
  "log message st = st\<lparr>logs := logs st @ [message]\<rparr>"

definition execSync :: "host \<Rightarrow> string \<Rightarrow> state \<Rightarrow> (error + string) \<times> state" where
  "execSync H cmd st =
     (case shell H (cmds st) cmd of
        ExitNonZero \<Rightarrow> (Inl (ExecError cmd), st\<lparr>cmds := cmds st @ [cmd]\<rparr>)
      | ExitZero out \<Rightarrow> (Inr out, st\<lparr>cmds := cmds st @ [cmd]\<rparr>))"

text \<open>Consecutive \<open>execSync\<close> statements: the first one that throws ends the sequence.\<close>

fun execAll :: "host \<Rightarrow> string list \<Rightarrow> state \<Rightarrow> (error + unit) \<times> state" where
  "execAll H [] st = (Inr (), st)"
| "execAll H (c # cs) st =
     (case execSync H c st of
        (Inl e, st') \<Rightarrow> (Inl e, st')
      | (Inr out, st') \<Rightarrow> execAll H cs st')"

text \<open>\<open>this.serverless.service.package.include.push(p)\<close>.\<close>

definition include_push :: "string \<Rightarrow> state \<Rightarrow> state" where
  "include_push p st = st\<lparr>package := (package st)\<lparr>pkg_include := pkg_include (package st) @ [p]\<rparr>\<rparr>"

subsection \<open>\<open>rubyVersion\<close>, \<open>extensionApiVersion\<close>, \<open>warnOnUnsupportedRuntime\<close>\<close>

definition rubyVersion :: "host \<Rightarrow> string" where
  "rubyVersion H = (if runtime H = ''ruby2.5'' then ''2.5.0'' else ''2.7.0'')"

definition extensionApiVersion :: "host \<Rightarrow> string" where
  "extensionApiVersion H = (if runtime H = ''ruby2.5'' then ''2.5.0-static'' else ''2.7.0'')"

definition warnOnUnsupportedRuntime :: "host \<Rightarrow> state \<Rightarrow> state" where
  "warnOnUnsupportedRuntime H st =
     (let st1 =
        (if truthy (debug (config H))
         then log (''runtime: '' @ runtime H)
                (log (''provider: '' @ provider_name H)
                  (log (''platform: '' @ platform H) st))
         else st)
      in if provider_name H \<noteq> ''aws''
         then log (''WARNING: serverless-ruby-package has only been tested with the AWS provider. It may not work with ''
                   @ provider_name H @ '', but bug reports are welcome.'') st1
         else if runtime H \<notin> set [''ruby2.5'', ''ruby2.7'']
         then log (''WARNING: serverless-ruby-package has only been tested with the ruby2.5 and the ruby2.7 runtimes. It may not work with ''
                   @ runtime H @ '', but bug reports are welcome.'') st1
         else st1)"

subsection \<open>\<open>tempContainer\<close> (lines 169 to 191)\<close>

text \<open>
  \<open>const container = {...}\<close> allocates a new object: it is appended to the store and its
  address returned. The statement \<open>this.config.tempContainer = container\<close> evaluates the
  getter once more and writes into the object this evaluation has built; no field of
  \<open>this\<close> refers to that object, so the state keeps no trace of the write.
\<close>

definition tempContainer :: "host \<Rightarrow> state \<Rightarrow> jsval \<times> state" where
  "tempContainer H st =
     (if truthy (cfg_tempContainer (config H)) then (cfg_tempContainer (config H), st)
      else
        let container = \<lparr> ct_name = containerName (config H),
                          ct_path = containerPath (config H),
                          ct_image = dockerImage (config H) \<rparr>;
            container' =
              (if \<not> truthy (ct_image container)
               then container\<lparr>ct_image :=
                      JStr (if runtime H = ''ruby2.5'' then ''lambci/lambda:build-ruby2.5''
                            else ''lambci/lambda:build-ruby2.7'')\<rparr>
               else container)
        in (JObj (length (heap st)), st\<lparr>heap := heap st @ [container']\<rparr>))"

text \<open>
  Reading a property of what \<open>tempContainer\<close> returned. A string or \<open>true\<close> (a truthy
  \<open>tempContainer\<close> option that is no object) has none of the three properties.
\<close>

definition get_prop :: "(container \<Rightarrow> jsval) \<Rightarrow> state \<Rightarrow> jsval \<Rightarrow> jsval" where
  "get_prop field st v =
     (case v of
        JObj a \<Rightarrow> (if a < length (heap st) then field (heap st ! a) else JUndefined)
      | _ \<Rightarrow> JUndefined)"

subsection \<open>\<open>nativeLinuxBundle\<close> (lines 193 to 242)\<close>

definition docker_create :: "string \<Rightarrow> string \<Rightarrow> string \<Rightarrow> string" where
  "docker_create nm pth img =
     ''docker create -v '' @ pth @ '' --name '' @ nm @ '' '' @ img @ '' /bin/true''"

definition docker_rm :: "string \<Rightarrow> string" where
  "docker_rm nm = ''docker rm '' @ nm"

definition dockerRun :: "string \<Rightarrow> string \<Rightarrow> string" where
  "dockerRun nm img = ''docker run --rm --volumes-from '' @ nm @ '' '' @ img"

definition bundle_install :: "string \<Rightarrow> string \<Rightarrow> string" where
  "bundle_install nm img = dockerRun nm img @ '' bundle install''"

text \<open>
  \<open>`${dockerRun} bundle config set --local key 'value'`\<close>; \<open>CHR 0x27\<close> is the single
  quote and \<open>CHR 0x22\<close> the double quote.
\<close>

definition bundle_config_set :: "string \<Rightarrow> string \<Rightarrow> string \<Rightarrow> string \<Rightarrow> string" where
  "bundle_config_set nm img key val =
     dockerRun nm img @ '' bundle config set --local '' @ key @ '' '' @ [CHR 0x27] @ val @ [CHR 0x27]"

text \<open>The commands of the \<open>try\<close> block before \<open>bundle install\<close> (lines 204 to 228).\<close>

definition staging_cmds :: "host \<Rightarrow> string \<Rightarrow> string \<Rightarrow> string \<Rightarrow> string list" where
  "staging_cmds H nm pth img =
     (let localPath = servicePath H;
          gf = toString (gemfilePath (config H))
      in [ docker_create nm pth img,
           ''if [ -d '' @ [CHR 0x22] @ localPath @ ''/vendor'' @ [CHR 0x22] @ '' ]; then\<newline>''
             @ ''        docker cp '' @ localPath @ ''/vendor '' @ nm @ '':'' @ pth @ ''/vendor\<newline>''
             @ ''        fi\<newline>      '',
           ''docker cp '' @ gf @ '' '' @ nm @ '':'' @ pth @ ''/Gemfile'',
           ''docker cp '' @ gf @ ''.lock '' @ nm @ '':'' @ pth @ ''/Gemfile.lock'',
           bundle_config_set nm img ''path'' ''vendor/bundle'',
           bundle_config_set nm img ''deployment'' ''true'',
           bundle_config_set nm img ''frozen'' ''true'',
           bundle_config_set nm img ''clean'' ''true'' ]
         @ (if truthy (withGroups (config H))
            then [bundle_config_set nm img ''with'' (toString (withGroups (config H)))]
            else [])
         @ (if truthy (withoutGroups (config H))
            then [bundle_config_set nm img ''without'' (toString (withoutGroups (config H)))]
            else [])
         @ (if truthy (standalone (config H))
            then [bundle_config_set nm img ''standalone'' ''true'']
            else []))"

text \<open>The commands after \<open>bundle install\<close> (lines 234 to 238).\<close>

definition retrieval_cmds :: "host \<Rightarrow> string \<Rightarrow> string \<Rightarrow> string list" where
  "retrieval_cmds H nm pth =
     [''docker cp '' @ nm @ '':'' @ pth @ ''/vendor '' @ servicePath H]
     @ (if \<not> truthy (standalone (config H))
        then [''docker cp '' @ nm @ '':'' @ pth @ ''/.bundle '' @ servicePath H]
        else [])"

text \<open>The \<open>try\<close> block (lines 204 to 238).\<close>

definition try_block :: "host \<Rightarrow> string \<Rightarrow> string \<Rightarrow> string \<Rightarrow> state \<Rightarrow> (error + unit) \<times> state" where
  "try_block H nm pth img st =
     (case execAll H (staging_cmds H nm pth img) st of
        (Inl e, st1) \<Rightarrow> (Inl e, st1)
      | (Inr u, st1) \<Rightarrow>
          (case execSync H (bundle_install nm img) st1 of
             (Inl e, st2) \<Rightarrow> (Inl e, st2)
           | (Inr result, st2) \<Rightarrow>
               execAll H (retrieval_cmds H nm pth)
                 (if truthy (debug (config H)) then log result st2 else st2)))"

text \<open>
  Lines 194 to 201, up to the \<open>try\<close>: the first log line, the container object and
  the three strings that the template literals of the commands insert.
\<close>

definition enter_try :: "host \<Rightarrow> state \<Rightarrow> string \<times> string \<times> string \<times> state" where
  "enter_try H st0 =
     (let st1 = log ''Building gems with native extensions for linux'' st0;
          (tc, st2) = tempContainer H st1;
          nm = toString (get_prop ct_name st2 tc);
          pth = toString (get_prop ct_path st2 tc);
          img = toString (get_prop ct_image st2 tc);
          st3 = (if truthy (debug (config H))
                 then log (''docker image: '' @ img) (log (''container name: '' @ nm) st2)
                 else st2)
      in (nm, pth, img, st3))"

text \<open>
  \<open>try { ... } finally { execSync(`docker rm ...`) }\<close>: the \<open>finally\<close> block runs however
  the \<open>try\<close> block ends; when it throws, its exception is the one that leaves the
  statement, otherwise the outcome of the \<open>try\<close> block is.
\<close>

definition nativeLinuxBundle :: "host \<Rightarrow> state \<Rightarrow> (error + unit) \<times> state" where
  "nativeLinuxBundle H st0 =
     (let (nm, pth, img, st3) = enter_try H st0;
          (r, st4) = try_block H nm pth img st3
      in case execSync H (docker_rm nm) st4 of
           (Inl e, st5) \<Rightarrow> (Inl e, st5)
         | (Inr out, st5) \<Rightarrow> (r, st5))"

subsection \<open>\<open>beforePackage\<close> (lines 77 to 167)\<close>

text \<open>The body of the \<open>gems.forEach\<close> callback (lines 136 to 158).\<close>

definition forEach_gem :: "host \<Rightarrow> string \<Rightarrow> string \<Rightarrow> state \<Rightarrow> gem \<Rightarrow> state" where
  "forEach_gem H gemRoot extensionDir st gem =
     (let st1 = include_push (gemRoot @ gem_path gem @ ''/**'') st;
          st2 = (if gem_extensions gem
                 then include_push (extensionDir @ ''/'' @ gem_name gem @ ''/**'') st1
                 else st1);
          st3 = include_push (''!'' @ gemRoot @ gem_path gem @ ''/.git/**'') st2;
          st4 = (if truthy (excludeGemTests (config H))
                 then include_push (''!'' @ gemRoot @ gem_path gem @ ''/spec/**'')
                        (include_push (''!'' @ gemRoot @ gem_path gem @ ''/test/**'') st3)
                 else st3)
      in if \<not> truthy (standalone (config H))
         then include_push (gemRoot @ gem_gemspec gem) st4
         else st4)"

definition gemRoot :: "host \<Rightarrow> string" where
  "gemRoot H = ''vendor/bundle/ruby/'' @ rubyVersion H"

definition extensionDir :: "host \<Rightarrow> string" where
  "extensionDir H = gemRoot H @ ''/extensions/x86_64-linux/'' @ extensionApiVersion H"

text \<open>Lines 121 to 166: what the hook does once the gems are known and the bundle built.\<close>

definition emit_includes :: "host \<Rightarrow> gem list \<Rightarrow> state \<Rightarrow> state" where
  "emit_includes H gems st =
     (let st1 = (if length gems < 10
                 then log (''Packaging gems: '' @ join '' '' (map gem_name gems)) st
                 else log (''Packaging '' @ show_nat (length gems) @ '' gems'') st);
          st2 = (if \<not> truthy (standalone (config H))
                 then include_push ''.bundle/config''
                        (if truthy (debug (config H))
                         then log ''Compiling bundle in bundler/setup mode'' st1 else st1)
                 else (if truthy (debug (config H))
                       then log ''Compiling bundle in standalone mode'' st1 else st1));
          st3 = foldl (forEach_gem H (gemRoot H) (extensionDir H)) st2 gems
      in if truthy (debug (config H))
         then foldl (\<lambda>s fp. log (''--- '' @ fp) s)
                (log ''Filepaths whitelisted in the packaging'' st3)
                (pkg_include (package st3))
         else st3)"

text \<open>Lines 78 to 105: what the hook does before it calls Bundler.\<close>

definition prepare_package :: "host \<Rightarrow> state \<Rightarrow> state" where
  "prepare_package H st0 =
     (let st1 = warnOnUnsupportedRuntime H st0;
          st2 = st1\<lparr>package := (package st1)\<lparr>excludeDevDependencies := JBool False\<rparr>\<rparr>;
          st3 = st2\<lparr>package := (package st2)\<lparr>pkg_exclude := [''**'']\<rparr>\<rparr>
      in if truthy (standalone (config H))
         then include_push ''vendor/bundle/bundler/**'' st3 else st3)"

text \<open>
  The hook. \<open>execSync("bundle exec ruby", ...)\<close> or \<open>JSON.parse\<close> may throw, and so may
  \<open>nativeLinuxBundle\<close>; nothing catches, so the hook ends there with what it has written
  so far.
\<close>

definition beforePackage :: "host \<Rightarrow> state \<Rightarrow> (error + unit) \<times> state" where
  "beforePackage H st0 =
     (case execSync H ''bundle exec ruby'' (prepare_package H st0) of
        (Inl e, st5) \<Rightarrow> (Inl e, st5)
      | (Inr output, st5) \<Rightarrow>
          (case JSON_parse H output of
             None \<Rightarrow> (Inl JSONSyntaxError, st5)
           | Some gems \<Rightarrow>
               (case (if truthy (alwaysCrossCompileExtensions (config H))
                      then nativeLinuxBundle H st5 else (Inr (), st5)) of
                  (Inl e, st6) \<Rightarrow> (Inl e, st6)
                | (Inr u, st6) \<Rightarrow> (Inr (), emit_includes H gems st6))))"

subsection \<open>Observations on one run\<close>

text \<open>
  The patterns that the \<open>forEach\<close> callback pushes for one gem, in the order of its
  \<open>push\<close> statements (lines 136, 139, 146, 148, 149, 157).
\<close>

definition gem_patterns :: "host \<Rightarrow> gem \<Rightarrow> string list" where
  "gem_patterns H g =
     [gemRoot H @ gem_path g @ ''/**'']
     @ (if gem_extensions g then [extensionDir H @ ''/'' @ gem_name g @ ''/**''] else [])
     @ [''!'' @ gemRoot H @ gem_path g @ ''/.git/**'']
     @ (if truthy (excludeGemTests (config H))
        then [''!'' @ gemRoot H @ gem_path g @ ''/test/**'',
              ''!'' @ gemRoot H @ gem_path g @ ''/spec/**'']
        else [])
     @ (if \<not> truthy (standalone (config H)) then [gemRoot H @ gem_gemspec g] else [])"

text \<open>What a list has gained since an earlier moment.\<close>

definition appended :: "'a list \<Rightarrow> 'a list \<Rightarrow> 'a list" where
  "appended old new = drop (length old) new"

text \<open>
  The patterns that one run of the hook appends to the include list, the commands it
  runs and the lines it logs.
\<close>

definition emitted :: "host \<Rightarrow> state \<Rightarrow> string list" where
  "emitted H st =
     appended (pkg_include (package st)) (pkg_include (package (snd (beforePackage H st))))"

definition issued :: "host \<Rightarrow> state \<Rightarrow> string list" where
  "issued H st = appended (cmds st) (cmds (snd (beforePackage H st)))"

definition printed :: "host \<Rightarrow> state \<Rightarrow> string list" where
  "printed H st = appended (logs st) (logs (snd (beforePackage H st)))"

text \<open>\<open>occurs_before x y xs\<close>: some occurrence of \<open>x\<close> in \<open>xs\<close> has an occurrence of \<open>y\<close> after it.\<close>

fun occurs_before :: "'a \<Rightarrow> 'a \<Rightarrow> 'a list \<Rightarrow> bool" where
  "occurs_before x y [] = False"
| "occurs_before x y (z # zs) = ((z = x \<and> y \<in> set zs) \<or> occurs_before x y zs)"

text \<open>
  The order in which the host framework reads the two lists, as the comment at
  lines 142 to 145 describes it: the \<open>exclude\<close> patterns first, then the \<open>include\<close>
  patterns in their order, an include that starts with \<open>!\<close> being an exclusion. The first
  component is \<open>True\<close> for an exclusion.
\<close>

definition rule_sequence :: "package_surface \<Rightarrow> (bool \<times> string) list" where
  "rule_sequence p =
     map (\<lambda>x. (True, x)) (pkg_exclude p)
     @ map (\<lambda>x. if take 1 x = ''!'' then (True, drop 1 x) else (False, x)) (pkg_include p)"

subsection \<open>Example inputs\<close>

text \<open>
  Two gems, one with a native extension, and a service with no options of its own on the
  \<open>ruby2.7\<close> runtime. In \<open>example_host\<close> every shell command succeeds.
\<close>

definition nokogiri :: gem where
  "nokogiri = \<lparr> gem_extensions = True, gem_name = ''nokogiri-1.11.0'',
      gem_path = ''/gems/nokogiri-1.11.0'',
      gem_gemspec = ''/specifications/nokogiri-1.11.0.gemspec'' \<rparr>"

definition rake :: gem where
  "rake = \<lparr> gem_extensions = False, gem_name = ''rake-13.0.3'',
      gem_path = ''/gems/rake-13.0.3'',
      gem_gemspec = ''/specifications/rake-13.0.3.gemspec'' \<rparr>"

definition example_host :: host where
  "example_host = \<lparr> servicePath = ''/srv/app'', path_join = (\<lambda>a b. a @ ''/'' @ b),
     rubyPackage = None, provider_name = ''aws'', runtime = ''ruby2.7'', platform = ''linux'',
     env_SRP_DEBUG = None, env_CROSS_COMPILE_EXTENSIONS = None,
     shell = (\<lambda>hist cmd. ExitZero ''[]''), JSON_parse = (\<lambda>s. Some [nokogiri, rake]) \<rparr>"

definition fresh :: state where
  "fresh = \<lparr> package = \<lparr> excludeDevDependencies = JUndefined, pkg_exclude = [], pkg_include = [] \<rparr>,
      cmds = [], logs = [], heap = [] \<rparr>"

definition no_options :: user_config where
  "no_options = \<lparr> u_alwaysCrossCompileExtensions = None, u_debug = None, u_gemfilePath = None,
     u_containerName = None, u_containerPath = None, u_withoutGroups = None, u_withGroups = None,
     u_standalone = None, u_dockerImage = None, u_excludeGemTests = None, u_tempContainer = None \<rparr>"

text \<open>The same service with \<open>standalone: true\<close>.\<close>

definition standalone_host :: host where
  "standalone_host =
     example_host\<lparr>rubyPackage := Some (no_options\<lparr>u_standalone := Some (JBool True)\<rparr>)\<rparr>"

text \<open>\<open>CROSS_COMPILE_EXTENSIONS=no\<close> in the environment.\<close>

definition no_cross_host :: host where
  "no_cross_host = example_host\<lparr>env_CROSS_COMPILE_EXTENSIONS := Some ''no''\<rparr>"

text \<open>
  \<open>alwaysCrossCompileExtensions: true\<close> written by the user, and the variable set to the
  empty string.
\<close>

definition override_host :: host where
  "override_host =
     example_host\<lparr>rubyPackage := Some (no_options\<lparr>u_alwaysCrossCompileExtensions := Some (JBool True)\<rparr>),
                  env_CROSS_COMPILE_EXTENSIONS := Some ''''\<rparr>"

text \<open>The standalone service on a machine where every shell command fails.\<close>

definition failing_host :: host where
  "failing_host = standalone_host\<lparr>shell := (\<lambda>hist cmd. ExitNonZero)\<rparr>"

text \<open>Only \<open>bundle install\<close> in the container fails.\<close>

definition install_fails_host :: host where
  "install_fails_host = example_host\<lparr>shell := (\<lambda>hist cmd.
      if cmd = bundle_install ''serverless-ruby-package.packaged-gems'' ''lambci/lambda:build-ruby2.7''
      then ExitNonZero else ExitZero [])\<rparr>"

text \<open>\<open>bundle install\<close> fails, and so does \<open>docker rm\<close>.\<close>

definition install_and_rm_fail_host :: host where
  "install_and_rm_fail_host = example_host\<lparr>shell := (\<lambda>hist cmd.
      if cmd = bundle_install ''serverless-ruby-package.packaged-gems'' ''lambci/lambda:build-ruby2.7''
         \<or> cmd = docker_rm ''serverless-ruby-package.packaged-gems''
      then ExitNonZero else ExitZero [])\<rparr>"

text \<open>The state in which \<open>nativeLinuxBundle\<close>, started in \<open>fresh\<close>, enters its \<open>try\<close> block.\<close>

definition entered :: state where
  "entered = fresh\<lparr> logs := [''Building gems with native extensions for linux''],
      heap := [\<lparr> ct_name = JStr ''serverless-ruby-package.packaged-gems'',
                 ct_path = JStr ''/var/task'',
                 ct_image = JStr ''lambci/lambda:build-ruby2.7'' \<rparr>] \<rparr>"

section \<open>Properties\<close>

subsection \<open>What each step leaves unchanged\<close>

text \<open>
  Logging touches the log only, \<open>push\<close> the include list only, a shell command the list
  of commands only.
\<close>

lemma log_fields [simp]:
  "package (log m st) = package st" "cmds (log m st) = cmds st"
  "heap (log m st) = heap st" "logs (log m st) = logs st @ [m]"
  by (simp_all add: log_def)

lemma include_push_fields [simp]:
  "cmds (include_push p st) = cmds st" "logs (include_push p st) = logs st"
  "heap (include_push p st) = heap st"
  "package (include_push p st) = (package st)\<lparr>pkg_include := pkg_include (package st) @ [p]\<rparr>"
  by (simp_all add: include_push_def)

lemma execSync_snd [simp]: "snd (execSync H c st) = st\<lparr>cmds := cmds st @ [c]\<rparr>"
  by (simp add: execSync_def split: exec_result.splits)

lemma execSync_fst:
  "fst (execSync H c st) =
     (case shell H (cmds st) c of ExitNonZero \<Rightarrow> Inl (ExecError c) | ExitZero out \<Rightarrow> Inr out)"
  by (simp add: execSync_def split: exec_result.splits)

lemma execAll_Cons:
  "execAll H (c # cs) st =
     (case fst (execSync H c st) of
        Inl e \<Rightarrow> (Inl e, st\<lparr>cmds := cmds st @ [c]\<rparr>)
      | Inr out \<Rightarrow> execAll H cs (st\<lparr>cmds := cmds st @ [c]\<rparr>))"
proof -
  obtain r st' where e: "execSync H c st = (r, st')" by (cases "execSync H c st")
  then have "st' = st\<lparr>cmds := cmds st @ [c]\<rparr>" using execSync_snd [of H c st] by simp
  with e show ?thesis by (simp split: sum.splits)
qed

declare execAll.simps(2) [simp del]

lemma execAll_snd:
  "\<exists>k \<le> length cs. snd (execAll H cs st) = st\<lparr>cmds := cmds st @ take k cs\<rparr>"
proof (induction cs arbitrary: st)
  case Nil then show ?case by simp
next
  case (Cons c cs)
  show ?case
  proof (cases "fst (execSync H c st)")
    case (Inl err)
    then have "snd (execAll H (c # cs) st) = st\<lparr>cmds := cmds st @ take 1 (c # cs)\<rparr>"
      by (simp add: execAll_Cons)
    then show ?thesis by (intro exI [of _ 1]) simp
  next
    case (Inr out)
    from Cons.IH [of "st\<lparr>cmds := cmds st @ [c]\<rparr>"] obtain k where k: "k \<le> length cs"
      "snd (execAll H cs (st\<lparr>cmds := cmds st @ [c]\<rparr>)) = st\<lparr>cmds := cmds st @ c # take k cs\<rparr>"
      by auto
    with Inr have "snd (execAll H (c # cs) st) = st\<lparr>cmds := cmds st @ take (Suc k) (c # cs)\<rparr>"
      by (simp add: execAll_Cons)
    with k(1) show ?thesis by (intro exI [of _ "Suc k"]) simp
  qed
qed

lemma execAll_fields [simp]:
  "package (snd (execAll H cs st)) = package st"
  "logs (snd (execAll H cs st)) = logs st"
  "heap (snd (execAll H cs st)) = heap st"
  using execAll_snd [of cs H st] by auto

lemma execAll_cmds_ok:
  "fst (execAll H cs st) = Inr u \<Longrightarrow> cmds (snd (execAll H cs st)) = cmds st @ cs"
proof (induction cs arbitrary: st)
  case Nil then show ?case by simp
next
  case (Cons c cs)
  from Cons.prems obtain out where r: "fst (execSync H c st) = Inr out"
    by (cases "fst (execSync H c st)") (auto simp: execAll_Cons)
  with Cons.IH [of "st\<lparr>cmds := cmds st @ [c]\<rparr>"] Cons.prems show ?case
    by (simp add: execAll_Cons)
qed

lemma execAll_snd_Cons:
  "\<exists>k. snd (execAll H (c # cs) st) = st\<lparr>cmds := cmds st @ c # take k cs\<rparr>"
proof (cases "fst (execSync H c st)")
  case (Inl e)
  then have "snd (execAll H (c # cs) st) = st\<lparr>cmds := cmds st @ c # take 0 cs\<rparr>"
    by (simp add: execAll_Cons)
  then show ?thesis by blast
next
  case (Inr out)
  from execAll_snd [of cs H "st\<lparr>cmds := cmds st @ [c]\<rparr>"] obtain k where
    "snd (execAll H cs (st\<lparr>cmds := cmds st @ [c]\<rparr>)) = st\<lparr>cmds := cmds st @ c # take k cs\<rparr>"
    by auto
  with Inr have "snd (execAll H (c # cs) st) = st\<lparr>cmds := cmds st @ c # take k cs\<rparr>"
    by (simp add: execAll_Cons)
  then show ?thesis by blast
qed

lemma execAll_error:
  "fst (execAll H cs st) = Inl e \<Longrightarrow> \<exists>c\<in>set cs. e = ExecError c"
proof (induction cs arbitrary: st)
  case Nil then show ?case by simp
next
  case (Cons c cs)
  show ?case
  proof (cases "shell H (cmds st) c")
    case ExitNonZero
    with Cons.prems show ?thesis by (simp add: execAll_Cons execSync_fst)
  next
    case (ExitZero out)
    with Cons.prems have "fst (execAll H cs (st\<lparr>cmds := cmds st @ [c]\<rparr>)) = Inl e"
      by (simp add: execAll_Cons execSync_fst)
    from Cons.IH [OF this] show ?thesis by auto
  qed
qed

lemma tempContainer_fields [simp]:
  "package (snd (tempContainer H st)) = package st"
  "cmds (snd (tempContainer H st)) = cmds st"
  "logs (snd (tempContainer H st)) = logs st"
  by (simp_all add: tempContainer_def Let_def)

lemma enter_try_fields:
  assumes "enter_try H st = (nm, pth, img, st3)"
  shows "package st3 = package st" and "cmds st3 = cmds st"
proof -
  obtain tc st2 where t: "tempContainer H (log ''Building gems with native extensions for linux'' st) = (tc, st2)"
    by (cases "tempContainer H (log ''Building gems with native extensions for linux'' st)")
  then have "package st2 = package st" "cmds st2 = cmds st"
    using tempContainer_fields [of H "log ''Building gems with native extensions for linux'' st"] by simp_all
  with assms t show "package st3 = package st" and "cmds st3 = cmds st"
    by (auto simp: enter_try_def Let_def split: if_splits)
qed

lemma enter_try_logs:
  assumes "enter_try H st = (nm, pth, img, st3)"
  shows "\<exists>D. logs st3 = logs st @ ''Building gems with native extensions for linux'' # D"
proof -
  obtain tc st2 where t: "tempContainer H (log ''Building gems with native extensions for linux'' st) = (tc, st2)"
    by (cases "tempContainer H (log ''Building gems with native extensions for linux'' st)")
  then have "logs st2 = logs st @ [''Building gems with native extensions for linux'']"
    using tempContainer_fields(3) [of H "log ''Building gems with native extensions for linux'' st"] by simp
  with assms t show ?thesis
    by (auto simp: enter_try_def Let_def split: if_splits)
qed

subsection \<open>The container build\<close>

lemma staging_cmds_Cons:
  "\<exists>rest. staging_cmds H nm pth img = docker_create nm pth img # rest"
  by (simp add: staging_cmds_def Let_def)

lemma try_block_unfold:
  "try_block H nm pth img st =
     (let s1 = snd (execAll H (staging_cmds H nm pth img) st) in
      case fst (execAll H (staging_cmds H nm pth img) st) of
        Inl e \<Rightarrow> (Inl e, s1)
      | Inr u \<Rightarrow>
          (case fst (execSync H (bundle_install nm img) s1) of
             Inl e \<Rightarrow> (Inl e, s1\<lparr>cmds := cmds s1 @ [bundle_install nm img]\<rparr>)
           | Inr result \<Rightarrow>
               execAll H (retrieval_cmds H nm pth)
                 (if truthy (debug (config H))
                  then log result (s1\<lparr>cmds := cmds s1 @ [bundle_install nm img]\<rparr>)
                  else s1\<lparr>cmds := cmds s1 @ [bundle_install nm img]\<rparr>)))"
proof -
  obtain r s1 where a: "execAll H (staging_cmds H nm pth img) st = (r, s1)"
    by (cases "execAll H (staging_cmds H nm pth img) st")
  obtain r2 s2 where b: "execSync H (bundle_install nm img) s1 = (r2, s2)"
    by (cases "execSync H (bundle_install nm img) s1")
  then have "s2 = s1\<lparr>cmds := cmds s1 @ [bundle_install nm img]\<rparr>"
    using execSync_snd [of H "bundle_install nm img" s1] by simp
  with a b show ?thesis by (simp add: try_block_def split: sum.splits)
qed

lemma try_block_package [simp]:
  "package (snd (try_block H nm pth img st)) = package st"
  by (simp add: try_block_unfold Let_def split: sum.splits)

lemma try_block_cmds:
  "\<exists>mid. cmds (snd (try_block H nm pth img st)) = cmds st @ docker_create nm pth img # mid"
proof -
  obtain rest where rest: "staging_cmds H nm pth img = docker_create nm pth img # rest"
    using staging_cmds_Cons by blast
  obtain k where k: "snd (execAll H (staging_cmds H nm pth img) st)
      = st\<lparr>cmds := cmds st @ docker_create nm pth img # take k rest\<rparr>"
    using execAll_snd_Cons [of H "docker_create nm pth img" rest st] rest by auto
  define s1 where "s1 = snd (execAll H (staging_cmds H nm pth img) st)"
  have c1: "cmds s1 = cmds st @ docker_create nm pth img # take k rest"
    using k by (simp add: s1_def)
  show ?thesis
  proof (cases "fst (execAll H (staging_cmds H nm pth img) st)")
    case (Inl e)
    then show ?thesis using c1 by (simp add: try_block_unfold s1_def [symmetric])
  next
    case (Inr u)
    show ?thesis
    proof (cases "fst (execSync H (bundle_install nm img) s1)")
      case (Inl e)
      with Inr show ?thesis using c1 by (simp add: try_block_unfold s1_def [symmetric])
    next
      case (Inr result)
      define s3 where "s3 = (if truthy (debug (config H))
                  then log result (s1\<lparr>cmds := cmds s1 @ [bundle_install nm img]\<rparr>)
                  else s1\<lparr>cmds := cmds s1 @ [bundle_install nm img]\<rparr>)"
      have c3: "cmds s3 = cmds s1 @ [bundle_install nm img]" by (simp add: s3_def)
      obtain j where "snd (execAll H (retrieval_cmds H nm pth) s3)
          = s3\<lparr>cmds := cmds s3 @ take j (retrieval_cmds H nm pth)\<rparr>"
        using execAll_snd [of "retrieval_cmds H nm pth" H s3] by blast
      then have "cmds (snd (execAll H (retrieval_cmds H nm pth) s3))
          = cmds st @ docker_create nm pth img # (take k rest @ [bundle_install nm img] @ take j (retrieval_cmds H nm pth))"
        using c3 c1 by simp
      moreover have "try_block H nm pth img st = execAll H (retrieval_cmds H nm pth) s3"
        using Inr \<open>fst (execAll H (staging_cmds H nm pth img) st) = Inr u\<close>
        by (simp add: try_block_unfold s1_def [symmetric] s3_def)
      ultimately show ?thesis by metis
    qed
  qed
qed

lemma try_block_logs:
  "\<exists>R. logs (snd (try_block H nm pth img st)) = logs st @ R"
  by (simp add: try_block_unfold Let_def split: sum.splits)

lemma try_block_error:
  assumes "fst (try_block H nm pth img st) = Inl e"
  shows "\<exists>c \<in> set (staging_cmds H nm pth img @ [bundle_install nm img] @ retrieval_cmds H nm pth).
           e = ExecError c"
proof (cases "fst (execAll H (staging_cmds H nm pth img) st)")
  case (Inl e')
  with assms have "e' = e" by (simp add: try_block_unfold Let_def)
  with Inl execAll_error [of H "staging_cmds H nm pth img" st e] show ?thesis by auto
next
  case (Inr u)
  define s1 where "s1 = snd (execAll H (staging_cmds H nm pth img) st)"
  show ?thesis
  proof (cases "shell H (cmds s1) (bundle_install nm img)")
    case ExitNonZero
    with Inr assms have "e = ExecError (bundle_install nm img)"
      by (simp add: try_block_unfold Let_def s1_def [symmetric] execSync_fst)
    then show ?thesis by simp
  next
    case (ExitZero result)
    with Inr assms have "\<exists>s3. fst (execAll H (retrieval_cmds H nm pth) s3) = Inl e"
      by (auto simp: try_block_unfold Let_def s1_def [symmetric] execSync_fst split: if_splits)
    then obtain s3 where "fst (execAll H (retrieval_cmds H nm pth) s3) = Inl e" by blast
    from execAll_error [OF this] show ?thesis by auto
  qed
qed

lemma docker_rm_not_in_try:
  "docker_rm nm \<notin> set (staging_cmds H nm pth img @ [bundle_install nm img] @ retrieval_cmds H nm pth)"
  by (simp add: staging_cmds_def retrieval_cmds_def bundle_install_def bundle_config_set_def
      dockerRun_def docker_rm_def docker_create_def Let_def)

lemma nativeLinuxBundle_unfold:
  assumes "enter_try H st = (nm, pth, img, st3)"
  shows "nativeLinuxBundle H st =
     (let s4 = snd (try_block H nm pth img st3) in
      (case fst (execSync H (docker_rm nm) s4) of
         Inl e \<Rightarrow> Inl e
       | Inr out \<Rightarrow> fst (try_block H nm pth img st3),
       s4\<lparr>cmds := cmds s4 @ [docker_rm nm]\<rparr>))"
proof -
  obtain r s4 where a: "try_block H nm pth img st3 = (r, s4)"
    by (cases "try_block H nm pth img st3")
  obtain f s5 where b: "execSync H (docker_rm nm) s4 = (f, s5)"
    by (cases "execSync H (docker_rm nm) s4")
  then have "s5 = s4\<lparr>cmds := cmds s4 @ [docker_rm nm]\<rparr>"
    using execSync_snd [of H "docker_rm nm" s4] by simp
  with a b assms show ?thesis by (simp add: nativeLinuxBundle_def split: sum.splits)
qed

lemma nativeLinuxBundle_package [simp]:
  "package (snd (nativeLinuxBundle H st)) = package st"
proof -
  obtain nm pth img st3 where e: "enter_try H st = (nm, pth, img, st3)"
    by (cases "enter_try H st") auto
  then show ?thesis using enter_try_fields(1) [OF e]
    by (simp add: nativeLinuxBundle_unfold [OF e] Let_def)
qed

lemma nativeLinuxBundle_cmds:
  assumes "enter_try H st = (nm, pth, img, st3)"
  shows "\<exists>mid. cmds (snd (nativeLinuxBundle H st))
           = cmds st @ docker_create nm pth img # mid @ [docker_rm nm]"
proof -
  obtain mid where "cmds (snd (try_block H nm pth img st3)) = cmds st3 @ docker_create nm pth img # mid"
    using try_block_cmds by blast
  then show ?thesis using enter_try_fields(2) [OF assms]
    by (simp add: nativeLinuxBundle_unfold [OF assms] Let_def)
qed

lemma nativeLinuxBundle_cmds_ex:
  "\<exists>nm pth img mid. cmds (snd (nativeLinuxBundle H st))
       = cmds st @ docker_create nm pth img # mid @ [docker_rm nm]"
proof -
  obtain nm pth img st3 where e: "enter_try H st = (nm, pth, img, st3)"
    by (cases "enter_try H st") auto
  from nativeLinuxBundle_cmds [OF e] show ?thesis by blast
qed

lemma nativeLinuxBundle_logs:
  "\<exists>L. logs (snd (nativeLinuxBundle H st))
         = logs st @ ''Building gems with native extensions for linux'' # L"
proof -
  obtain nm pth img st3 where e: "enter_try H st = (nm, pth, img, st3)"
    by (cases "enter_try H st") auto
  obtain D where D: "logs st3 = logs st @ ''Building gems with native extensions for linux'' # D"
    using enter_try_logs [OF e] by blast
  obtain R where "logs (snd (try_block H nm pth img st3)) = logs st3 @ R"
    using try_block_logs by blast
  with D show ?thesis by (simp add: nativeLinuxBundle_unfold [OF e] Let_def)
qed

subsection \<open>The hook\<close>

lemma warn_fields [simp]:
  "package (warnOnUnsupportedRuntime H st) = package st"
  "cmds (warnOnUnsupportedRuntime H st) = cmds st"
  "heap (warnOnUnsupportedRuntime H st) = heap st"
  by (simp_all add: warnOnUnsupportedRuntime_def Let_def)

lemma warn_logs:
  "\<exists>W. logs (warnOnUnsupportedRuntime H st) = logs st @ W
       \<and> ''Building gems with native extensions for linux'' \<notin> set W"
  by (simp add: warnOnUnsupportedRuntime_def Let_def)

lemma forEach_gem_fields [simp]:
  "cmds (forEach_gem H gr ed st g) = cmds st"
  "logs (forEach_gem H gr ed st g) = logs st"
  "heap (forEach_gem H gr ed st g) = heap st"
  by (simp_all add: forEach_gem_def Let_def)

lemma forEach_gem_package:
  "package (forEach_gem H (gemRoot H) (extensionDir H) st g)
     = (package st)\<lparr>pkg_include := pkg_include (package st) @ gem_patterns H g\<rparr>"
  by (simp add: forEach_gem_def gem_patterns_def Let_def)

lemma foldl_forEach_gem_package:
  "package (foldl (forEach_gem H (gemRoot H) (extensionDir H)) st gems)
     = (package st)\<lparr>pkg_include := pkg_include (package st) @ concat (map (gem_patterns H) gems)\<rparr>"
  by (induction gems arbitrary: st) (simp_all add: forEach_gem_package)

lemma foldl_forEach_gem_fields [simp]:
  "cmds (foldl (forEach_gem H gr ed) st gems) = cmds st"
  "logs (foldl (forEach_gem H gr ed) st gems) = logs st"
  by (induction gems arbitrary: st) simp_all

lemma foldl_log_fields [simp]:
  "package (foldl (\<lambda>s fp. log (f fp) s) st xs) = package st"
  "cmds (foldl (\<lambda>s fp. log (f fp) s) st xs) = cmds st"
  by (induction xs arbitrary: st) simp_all

lemma foldl_log_logs:
  "logs (foldl (\<lambda>s fp. log (f fp) s) st xs) = logs st @ map f xs"
  by (induction xs arbitrary: st) simp_all

lemma emit_includes_cmds [simp]: "cmds (emit_includes H gems st) = cmds st"
  by (simp add: emit_includes_def Let_def)

lemma emit_includes_package:
  "package (emit_includes H gems st)
     = (package st)\<lparr>pkg_include := pkg_include (package st)
          @ (if truthy (standalone (config H)) then [] else [''.bundle/config''])
          @ concat (map (gem_patterns H) gems)\<rparr>"
  by (simp add: emit_includes_def Let_def foldl_forEach_gem_package)

lemma emit_includes_logs:
  "\<exists>E. logs (emit_includes H gems st) = logs st @ E
       \<and> ''Building gems with native extensions for linux'' \<notin> set E"
  by (auto simp: emit_includes_def Let_def foldl_log_logs)

lemma prepare_package_fields [simp]:
  "cmds (prepare_package H st) = cmds st"
  "heap (prepare_package H st) = heap st"
  "logs (prepare_package H st) = logs (warnOnUnsupportedRuntime H st)"
  "package (prepare_package H st) =
     (package st)\<lparr> excludeDevDependencies := JBool False, pkg_exclude := [''**''],
        pkg_include := pkg_include (package st)
          @ (if truthy (standalone (config H)) then [''vendor/bundle/bundler/**''] else []) \<rparr>"
  by (simp_all add: prepare_package_def Let_def)

lemma beforePackage_unfold:
  "beforePackage H st =
     (let st5 = (prepare_package H st)\<lparr>cmds := cmds st @ [''bundle exec ruby'']\<rparr>
      in case shell H (cmds st) ''bundle exec ruby'' of
           ExitNonZero \<Rightarrow> (Inl (ExecError ''bundle exec ruby''), st5)
         | ExitZero output \<Rightarrow>
             (case JSON_parse H output of
                None \<Rightarrow> (Inl JSONSyntaxError, st5)
              | Some gems \<Rightarrow>
                  if truthy (alwaysCrossCompileExtensions (config H))
                  then (case fst (nativeLinuxBundle H st5) of
                          Inl e \<Rightarrow> (Inl e, snd (nativeLinuxBundle H st5))
                        | Inr u \<Rightarrow> (Inr (), emit_includes H gems (snd (nativeLinuxBundle H st5))))
                  else (Inr (), emit_includes H gems st5)))"
  by (simp add: beforePackage_def Let_def execSync_def case_prod_beta
      split: exec_result.splits option.splits sum.splits)

lemma appended_append [simp]: "appended xs (xs @ ys) = ys"
  by (simp add: appended_def)

lemma beforePackage_exclude:
  "pkg_exclude (package (snd (beforePackage H st))) = [''**'']"
  by (simp add: beforePackage_unfold Let_def emit_includes_package
      split: exec_result.splits option.splits sum.splits)

lemma beforePackage_ok_package:
  assumes "shell H (cmds st) ''bundle exec ruby'' = ExitZero out"
    and "JSON_parse H out = Some gems"
    and "fst (beforePackage H st) = Inr ()"
  shows "package (snd (beforePackage H st)) =
           (package st)\<lparr> excludeDevDependencies := JBool False, pkg_exclude := [''**''],
              pkg_include := pkg_include (package st)
                @ (if truthy (standalone (config H)) then [''vendor/bundle/bundler/**'']
                   else [''.bundle/config''])
                @ concat (map (gem_patterns H) gems) \<rparr>"
  using assms
  by (simp add: beforePackage_unfold Let_def emit_includes_package split: sum.splits if_splits)

lemma emitted_ok:
  assumes "shell H (cmds st) ''bundle exec ruby'' = ExitZero out"
    and "JSON_parse H out = Some gems"
    and "fst (beforePackage H st) = Inr ()"
  shows "emitted H st =
           (if truthy (standalone (config H)) then [''vendor/bundle/bundler/**'']
            else [''.bundle/config''])
           @ concat (map (gem_patterns H) gems)"
  by (simp add: emitted_def beforePackage_ok_package [OF assms])

subsection \<open>The patterns of one gem\<close>

lemma occurs_before_append: "occurs_before x y (A @ x # B @ y # C)"
  by (induction A) simp_all

lemma occurs_before_index:
  "occurs_before x y xs \<longleftrightarrow> (\<exists>i j. i < j \<and> j < length xs \<and> xs ! i = x \<and> xs ! j = y)"
proof (induction xs)
  case Nil then show ?case by simp
next
  case (Cons z zs)
  show ?case
  proof
    assume "occurs_before x y (z # zs)"
    then consider "z = x" "y \<in> set zs" | "occurs_before x y zs" by auto
    then show "\<exists>i j. i < j \<and> j < length (z # zs) \<and> (z # zs) ! i = x \<and> (z # zs) ! j = y"
    proof cases
      case 1
      then obtain k where "k < length zs" "zs ! k = y" by (auto simp: in_set_conv_nth)
      with 1 show ?thesis by (intro exI [of _ 0] exI [of _ "Suc k"]) simp
    next
      case 2
      with Cons.IH obtain i j where "i < j" "j < length zs" "zs ! i = x" "zs ! j = y" by blast
      then show ?thesis by (intro exI [of _ "Suc i"] exI [of _ "Suc j"]) simp
    qed
  next
    assume "\<exists>i j. i < j \<and> j < length (z # zs) \<and> (z # zs) ! i = x \<and> (z # zs) ! j = y"
    then obtain i j where ij: "i < j" "j < length (z # zs)" "(z # zs) ! i = x" "(z # zs) ! j = y"
      by blast
    then obtain j' where j': "j = Suc j'" by (cases j) auto
    show "occurs_before x y (z # zs)"
    proof (cases i)
      case 0
      with ij j' have "z = x" "y \<in> set zs" by auto
      then show ?thesis by simp
    next
      case (Suc i')
      with ij j' have "i' < j'" "j' < length zs" "zs ! i' = x" "zs ! j' = y" by auto
      with Cons.IH have "occurs_before x y zs" by blast
      then show ?thesis by simp
    qed
  qed
qed

lemma occurs_before_in_concat:
  assumes "g \<in> set gems" and "occurs_before x y (f g)"
  shows "occurs_before x y (P @ concat (map f gems))"
proof -
  from assms(2) obtain i j where ij: "i < j" "j < length (f g)" "f g ! i = x" "f g ! j = y"
    by (auto simp: occurs_before_index)
  from assms(1) obtain as bs where "gems = as @ g # bs" by (auto dest: split_list)
  then have c: "P @ concat (map f gems) = (P @ concat (map f as)) @ f g @ concat (map f bs)" by simp
  define n where "n = length (P @ concat (map f as))"
  have "(P @ concat (map f gems)) ! (n + i) = x" "(P @ concat (map f gems)) ! (n + j) = y"
    using ij unfolding c n_def by (simp_all add: nth_append)
  moreover have "n + i < n + j" "n + j < length (P @ concat (map f gems))"
    using ij unfolding c n_def by simp_all
  ultimately show ?thesis unfolding occurs_before_index by blast
qed

lemma gem_patterns_order:
  "occurs_before (gemRoot H @ gem_path g @ ''/**'') (''!'' @ gemRoot H @ gem_path g @ ''/.git/**'')
     (gem_patterns H g)"
  "truthy (excludeGemTests (config H)) \<Longrightarrow>
     occurs_before (gemRoot H @ gem_path g @ ''/**'') (''!'' @ gemRoot H @ gem_path g @ ''/test/**'')
       (gem_patterns H g)"
  "truthy (excludeGemTests (config H)) \<Longrightarrow>
     occurs_before (gemRoot H @ gem_path g @ ''/**'') (''!'' @ gemRoot H @ gem_path g @ ''/spec/**'')
       (gem_patterns H g)"
  by (simp_all add: gem_patterns_def)

lemma gem_patterns_not_global:
  "x \<in> set (gem_patterns H g) \<Longrightarrow> x \<noteq> ''vendor/bundle/bundler/**'' \<and> x \<noteq> ''.bundle/config''"
  by (auto simp: gem_patterns_def gemRoot_def extensionDir_def split: if_splits)

lemma count_list_concat_zero:
  "(\<And>g y. g \<in> set gems \<Longrightarrow> y \<in> set (f g) \<Longrightarrow> y \<noteq> x) \<Longrightarrow> count_list (concat (map f gems)) x = 0"
  by (induction gems) (auto simp: count_list_0_iff)

lemma gem_patterns_standalone:
  "truthy (standalone (config H)) \<Longrightarrow>
   gem_patterns H g =
     [gemRoot H @ gem_path g @ ''/**'']
     @ (if gem_extensions g then [extensionDir H @ ''/'' @ gem_name g @ ''/**''] else [])
     @ [''!'' @ gemRoot H @ gem_path g @ ''/.git/**'']
     @ (if truthy (excludeGemTests (config H))
        then [''!'' @ gemRoot H @ gem_path g @ ''/test/**'',
              ''!'' @ gemRoot H @ gem_path g @ ''/spec/**'']
        else [])"
  by (simp add: gem_patterns_def)

lemma gem_patterns_standalone_star:
  "truthy (standalone (config H)) \<Longrightarrow> x \<in> set (gem_patterns H g) \<Longrightarrow> CHR ''*'' \<in> set x"
  by (auto simp: gem_patterns_def split: if_splits)

lemma gemRoot_no_star: "CHR ''*'' \<notin> set (gemRoot H)"
  by (simp add: gemRoot_def rubyVersion_def)

subsection \<open>The example runs\<close>

lemmas model_defs = beforePackage_def prepare_package_def nativeLinuxBundle_def enter_try_def try_block_def
  tempContainer_def get_prop_def staging_cmds_def retrieval_cmds_def bundle_config_set_def
  bundle_install_def dockerRun_def docker_rm_def docker_create_def emit_includes_def
  forEach_gem_def gemRoot_def extensionDir_def rubyVersion_def extensionApiVersion_def
  warnOnUnsupportedRuntime_def include_push_def log_def execSync_def config_def assign_def
  affirmative_def lower_ascii_def execAll.simps

lemma example_run:
  "shell example_host (cmds fresh) ''bundle exec ruby'' = ExitZero ''[]''"
  "JSON_parse example_host ''[]'' = Some [nokogiri, rake]"
  "fst (beforePackage example_host fresh) = Inr ()"
  by (simp_all add: model_defs example_host_def fresh_def nokogiri_def rake_def Let_def)

lemma standalone_run:
  "shell standalone_host (cmds fresh) ''bundle exec ruby'' = ExitZero ''[]''"
  "JSON_parse standalone_host ''[]'' = Some [nokogiri, rake]"
  "fst (beforePackage standalone_host fresh) = Inr ()"
  "truthy (standalone (config standalone_host))"
  by (simp_all add: model_defs standalone_host_def no_options_def example_host_def fresh_def
      nokogiri_def rake_def Let_def)

lemma no_cross_run:
  "shell no_cross_host (cmds fresh) ''bundle exec ruby'' = ExitZero ''[]''"
  "JSON_parse no_cross_host ''[]'' = Some [nokogiri, rake]"
  "\<not> truthy (alwaysCrossCompileExtensions (config no_cross_host))"
  by (simp_all add: no_cross_host_def example_host_def config_def assign_def affirmative_def
      lower_ascii_def Let_def)

lemma example_config:
  "\<not> truthy (standalone (config example_host))"
  "truthy (alwaysCrossCompileExtensions (config example_host))"
  "truthy (excludeGemTests (config example_host))"
  by (simp_all add: example_host_def config_def assign_def Let_def)

lemma example_enter_try:
  "enter_try (example_host\<lparr>shell := f\<rparr>) fresh
     = (''serverless-ruby-package.packaged-gems'', ''/var/task'', ''lambci/lambda:build-ruby2.7'',
        entered)"
  by (simp add: enter_try_def tempContainer_def get_prop_def config_def assign_def log_def
      example_host_def fresh_def entered_def Let_def)

subsection \<open>The container object is built by every call\<close>

text \<open>
  Unless the user has put a truthy \<open>tempContainer\<close> among the options, a call of
  \<open>tempContainer\<close> allocates an object and leaves nothing behind that a later call
  could find: two calls in a row return two different objects.
\<close>

lemma tempContainer_allocates:
  assumes "\<not> truthy (cfg_tempContainer (config H))"
  shows "fst (tempContainer H st) = JObj (length (heap st))"
    and "length (heap (snd (tempContainer H st))) = Suc (length (heap st))"
  using assms by (simp_all add: tempContainer_def Let_def)

lemma tempContainer_never_cached:
  assumes "\<not> truthy (cfg_tempContainer (config H))"
  shows "fst (tempContainer H (snd (tempContainer H st))) \<noteq> fst (tempContainer H st)"
  using tempContainer_allocates [OF assms] by simp

section \<open>The claims\<close>

subsection \<open>C1: Bundler fails\<close>

text \<open>
  C1 says that when the \<open>bundle exec ruby\<close> call exits with a non-zero status the run
  raises and the package description has received no rule and no other write. The code
  writes \<open>excludeDevDependencies\<close>, \<open>exclude\<close> and, in standalone mode, the first include
  before it calls Bundler (lines 98 to 105), and nothing undoes these writes. At
  \<open>failing_host\<close> the claim is false: the hook leaves one exclude and one include
  pattern behind.
\<close>

theorem tool_failure_counterexample:
  "\<not> (shell failing_host (cmds fresh) ''bundle exec ruby'' = ExitNonZero \<longrightarrow>
        pkg_exclude (package (snd (beforePackage failing_host fresh))) = pkg_exclude (package fresh)
      \<and> pkg_include (package (snd (beforePackage failing_host fresh))) = pkg_include (package fresh))"
  by (simp add: beforePackage_unfold Let_def failing_host_def standalone_host_def example_host_def
      fresh_def no_options_def config_def assign_def)

text \<open>
  C1 as amended: when the \<open>bundle exec ruby\<close> call exits with a non-zero status, the hook
  raises the error of that call, no other command has been run, no pattern of a gem and
  no \<open>.bundle/config\<close> has been pushed; the package description holds
  \<open>excludeDevDependencies = false\<close>, \<open>exclude = ["**"]\<close> and, in standalone mode, the
  include \<open>vendor/bundle/bundler/**\<close> after what the include list held before.
\<close>

theorem tool_failure_surface:
  assumes "shell H (cmds st) ''bundle exec ruby'' = ExitNonZero"
  shows "fst (beforePackage H st) = Inl (ExecError ''bundle exec ruby'')
       \<and> package (snd (beforePackage H st)) =
           (package st)\<lparr> excludeDevDependencies := JBool False, pkg_exclude := [''**''],
              pkg_include := pkg_include (package st)
                @ (if truthy (standalone (config H)) then [''vendor/bundle/bundler/**''] else []) \<rparr>
       \<and> issued H st = [''bundle exec ruby'']"
  using assms by (simp add: beforePackage_unfold Let_def issued_def)

theorem tool_failure_surface_witness:
  "fst (beforePackage failing_host fresh) = Inl (ExecError ''bundle exec ruby'')
   \<and> pkg_exclude (package (snd (beforePackage failing_host fresh))) = [''**'']
   \<and> pkg_include (package (snd (beforePackage failing_host fresh))) = [''vendor/bundle/bundler/**'']
   \<and> issued failing_host fresh = [''bundle exec ruby'']"
proof -
  have h: "shell failing_host (cmds fresh) ''bundle exec ruby'' = ExitNonZero"
    by (simp add: failing_host_def)
  have s: "truthy (standalone (config failing_host))"
    by (simp add: failing_host_def standalone_host_def example_host_def no_options_def
        config_def assign_def)
  show ?thesis using tool_failure_surface [OF h] s by (simp add: fresh_def)
qed

subsection \<open>C2: \<open>docker rm\<close> fails after an earlier failure\<close>

text \<open>
  C2 says that the error of the \<open>try\<close> block leaves \<open>nativeLinuxBundle\<close> when
  \<open>docker rm\<close> fails too, the failure of \<open>docker rm\<close> being logged only. The \<open>finally\<close>
  block of lines 239 to 241 has no \<open>catch\<close> around \<open>execSync\<close>: an exception thrown
  there replaces the pending one, and nothing is logged. At \<open>install_and_rm_fail_host\<close>
  \<open>bundle install\<close> fails, \<open>docker rm\<close> fails, and the error that leaves is not the one
  of \<open>bundle install\<close>.
\<close>

theorem teardown_masks_counterexample:
  "\<not> (enter_try install_and_rm_fail_host fresh
          = (''serverless-ruby-package.packaged-gems'', ''/var/task'',
             ''lambci/lambda:build-ruby2.7'', entered)
        \<and> fst (try_block install_and_rm_fail_host ''serverless-ruby-package.packaged-gems''
              ''/var/task'' ''lambci/lambda:build-ruby2.7'' entered)
          = Inl (ExecError (bundle_install ''serverless-ruby-package.packaged-gems''
                   ''lambci/lambda:build-ruby2.7''))
        \<and> shell install_and_rm_fail_host
             (cmds (snd (try_block install_and_rm_fail_host ''serverless-ruby-package.packaged-gems''
                ''/var/task'' ''lambci/lambda:build-ruby2.7'' entered)))
             (docker_rm ''serverless-ruby-package.packaged-gems'') = ExitNonZero
        \<longrightarrow> fst (nativeLinuxBundle install_and_rm_fail_host fresh)
          = Inl (ExecError (bundle_install ''serverless-ruby-package.packaged-gems''
                   ''lambci/lambda:build-ruby2.7'')))"
  by (simp add: model_defs install_and_rm_fail_host_def example_host_def fresh_def entered_def Let_def)

text \<open>
  C2 as amended: when the \<open>try\<close> block has failed with an error \<open>e\<close> and \<open>docker rm\<close>
  fails, the error that leaves \<open>nativeLinuxBundle\<close> is the one of \<open>docker rm\<close>; it is
  another error than \<open>e\<close>, and the failure adds no line to the log.
\<close>

theorem teardown_error_replaces_earlier_error:
  assumes "enter_try H st = (nm, pth, img, st3)"
    and "try_block H nm pth img st3 = (Inl e, st4)"
    and "shell H (cmds st4) (docker_rm nm) = ExitNonZero"
  shows "nativeLinuxBundle H st
           = (Inl (ExecError (docker_rm nm)), st4\<lparr>cmds := cmds st4 @ [docker_rm nm]\<rparr>)
       \<and> ExecError (docker_rm nm) \<noteq> e
       \<and> logs (snd (nativeLinuxBundle H st)) = logs st4"
proof -
  have r: "nativeLinuxBundle H st
           = (Inl (ExecError (docker_rm nm)), st4\<lparr>cmds := cmds st4 @ [docker_rm nm]\<rparr>)"
    using assms(2,3) by (simp add: nativeLinuxBundle_unfold [OF assms(1)] Let_def execSync_fst)
  from assms(2) have "fst (try_block H nm pth img st3) = Inl e" by simp
  from try_block_error [OF this] docker_rm_not_in_try [of nm H pth img]
  have "ExecError (docker_rm nm) \<noteq> e" by auto
  with r show ?thesis by simp
qed

theorem teardown_error_replaces_earlier_error_witness:
  "fst (nativeLinuxBundle install_and_rm_fail_host fresh)
     = Inl (ExecError (docker_rm ''serverless-ruby-package.packaged-gems''))
   \<and> ExecError (docker_rm ''serverless-ruby-package.packaged-gems'')
     \<noteq> ExecError (bundle_install ''serverless-ruby-package.packaged-gems'' ''lambci/lambda:build-ruby2.7'')
   \<and> logs (snd (nativeLinuxBundle install_and_rm_fail_host fresh))
     = [''Building gems with native extensions for linux'']"
proof -
  let ?H = install_and_rm_fail_host
  let ?nm = "''serverless-ruby-package.packaged-gems''"
  let ?img = "''lambci/lambda:build-ruby2.7''"
  have 1: "enter_try ?H fresh = (?nm, ''/var/task'', ?img, entered)"
    unfolding install_and_rm_fail_host_def by (rule example_enter_try)
  have "fst (try_block ?H ?nm ''/var/task'' ?img entered) = Inl (ExecError (bundle_install ?nm ?img))"
    by (simp add: model_defs install_and_rm_fail_host_def example_host_def fresh_def entered_def Let_def)
  then have 2: "try_block ?H ?nm ''/var/task'' ?img entered
      = (Inl (ExecError (bundle_install ?nm ?img)), snd (try_block ?H ?nm ''/var/task'' ?img entered))"
    by (metis prod.collapse)
  have 3: "shell ?H (cmds (snd (try_block ?H ?nm ''/var/task'' ?img entered))) (docker_rm ?nm) = ExitNonZero"
    by (simp add: install_and_rm_fail_host_def)
  have 4: "logs (snd (try_block ?H ?nm ''/var/task'' ?img entered)) = [''Building gems with native extensions for linux'']"
    by (simp add: model_defs install_and_rm_fail_host_def example_host_def fresh_def entered_def Let_def)
  show ?thesis using teardown_error_replaces_earlier_error [OF 1 2 3] 4 by simp
qed

subsection \<open>C3: \<open>docker rm\<close> is run on every path\<close>

text \<open>
  C3: in every run of \<open>nativeLinuxBundle\<close> in which \<open>docker create\<close> succeeded, the last
  command run is \<open>docker rm\<close> of the container. In particular, when the commands before
  \<open>bundle install\<close> succeed and \<open>bundle install\<close> fails, the commands run are those,
  \<open>bundle install\<close> and then \<open>docker rm\<close>, and an error leaves the function: the one of
  \<open>bundle install\<close> when \<open>docker rm\<close> succeeds.
\<close>

theorem teardown_issued_on_every_path:
  assumes "enter_try H st = (nm, pth, img, st3)"
    and "shell H (cmds st) (docker_create nm pth img) = ExitZero out"
  shows "(\<exists>mid. cmds (snd (nativeLinuxBundle H st))
                 = cmds st @ docker_create nm pth img # mid @ [docker_rm nm])
       \<and> (fst (execAll H (staging_cmds H nm pth img) st3) = Inr ()
          \<and> shell H (cmds st @ staging_cmds H nm pth img) (bundle_install nm img) = ExitNonZero
          \<longrightarrow> cmds (snd (nativeLinuxBundle H st))
                 = cmds st @ staging_cmds H nm pth img @ [bundle_install nm img, docker_rm nm]
            \<and> fst (nativeLinuxBundle H st)
                 = (case shell H (cmds st @ staging_cmds H nm pth img @ [bundle_install nm img])
                           (docker_rm nm) of
                      ExitNonZero \<Rightarrow> Inl (ExecError (docker_rm nm))
                    | ExitZero x \<Rightarrow> Inl (ExecError (bundle_install nm img))))"
proof (intro conjI impI)
  show "\<exists>mid. cmds (snd (nativeLinuxBundle H st))
                 = cmds st @ docker_create nm pth img # mid @ [docker_rm nm]"
    by (rule nativeLinuxBundle_cmds [OF assms(1)])
next
  assume a: "fst (execAll H (staging_cmds H nm pth img) st3) = Inr ()
          \<and> shell H (cmds st @ staging_cmds H nm pth img) (bundle_install nm img) = ExitNonZero"
  define s1 where "s1 = snd (execAll H (staging_cmds H nm pth img) st3)"
  have c1: "cmds s1 = cmds st @ staging_cmds H nm pth img"
    using a execAll_cmds_ok [of H "staging_cmds H nm pth img" st3 "()"]
      enter_try_fields(2) [OF assms(1)] by (simp add: s1_def)
  have t: "try_block H nm pth img st3
      = (Inl (ExecError (bundle_install nm img)), s1\<lparr>cmds := cmds s1 @ [bundle_install nm img]\<rparr>)"
    using a c1 by (simp add: try_block_unfold Let_def s1_def [symmetric] execSync_fst)
  show "cmds (snd (nativeLinuxBundle H st))
          = cmds st @ staging_cmds H nm pth img @ [bundle_install nm img, docker_rm nm]"
    using t c1 by (simp add: nativeLinuxBundle_unfold [OF assms(1)] Let_def)
  show "fst (nativeLinuxBundle H st)
          = (case shell H (cmds st @ staging_cmds H nm pth img @ [bundle_install nm img])
                   (docker_rm nm) of
               ExitNonZero \<Rightarrow> Inl (ExecError (docker_rm nm))
             | ExitZero x \<Rightarrow> Inl (ExecError (bundle_install nm img)))"
    using t c1 by (simp add: nativeLinuxBundle_unfold [OF assms(1)] Let_def execSync_fst
        split: exec_result.splits)
qed

theorem teardown_issued_on_every_path_witness:
  "cmds (snd (nativeLinuxBundle install_fails_host fresh))
     = staging_cmds install_fails_host ''serverless-ruby-package.packaged-gems'' ''/var/task''
         ''lambci/lambda:build-ruby2.7''
       @ [bundle_install ''serverless-ruby-package.packaged-gems'' ''lambci/lambda:build-ruby2.7'',
          docker_rm ''serverless-ruby-package.packaged-gems'']
   \<and> fst (nativeLinuxBundle install_fails_host fresh)
     = Inl (ExecError (bundle_install ''serverless-ruby-package.packaged-gems'' ''lambci/lambda:build-ruby2.7''))"
proof -
  let ?H = install_fails_host
  let ?nm = "''serverless-ruby-package.packaged-gems''"
  let ?img = "''lambci/lambda:build-ruby2.7''"
  have 1: "enter_try ?H fresh = (?nm, ''/var/task'', ?img, entered)"
    unfolding install_fails_host_def by (rule example_enter_try)
  have 2: "shell ?H (cmds fresh) (docker_create ?nm ''/var/task'' ?img) = ExitZero []"
    by (simp add: install_fails_host_def docker_create_def bundle_install_def dockerRun_def)
  have 3: "fst (execAll ?H (staging_cmds ?H ?nm ''/var/task'' ?img) entered) = Inr ()"
    by (simp add: model_defs install_fails_host_def example_host_def fresh_def entered_def Let_def)
  have 4: "shell ?H (cmds fresh @ staging_cmds ?H ?nm ''/var/task'' ?img) (bundle_install ?nm ?img) = ExitNonZero"
    by (simp add: install_fails_host_def)
  have 5: "shell ?H (cmds fresh @ staging_cmds ?H ?nm ''/var/task'' ?img @ [bundle_install ?nm ?img])
             (docker_rm ?nm) = ExitZero []"
    by (simp add: install_fails_host_def docker_rm_def bundle_install_def dockerRun_def)
  have 6: "cmds fresh = []" by (simp add: fresh_def)
  show ?thesis using teardown_issued_on_every_path [OF 1 2] 3 4 5 6 by simp
qed

subsection \<open>C4: when the container build runs\<close>

text \<open>
  C4: once Bundler has listed the gems, whatever they are, \<open>nativeLinuxBundle\<close> runs
  exactly when \<open>alwaysCrossCompileExtensions\<close> of the configuration is truthy. When it
  runs, its first log line is printed and the commands after \<open>bundle exec ruby\<close> start
  with \<open>docker create\<close> and end with \<open>docker rm\<close>; when it does not, \<open>bundle exec ruby\<close>
  is the only command and the log line is absent. With \<open>CROSS_COMPILE_EXTENSIONS\<close> set
  to a value that the pattern rejects, such as \<open>no\<close>, the option is false.
\<close>

theorem orchestrator_iff_toggle:
  assumes "shell H (cmds st) ''bundle exec ruby'' = ExitZero out"
    and "JSON_parse H out = Some gems"
  shows "(truthy (alwaysCrossCompileExtensions (config H)) \<longrightarrow>
            (\<exists>nm pth img mid. issued H st
                 = ''bundle exec ruby'' # docker_create nm pth img # mid @ [docker_rm nm])
            \<and> ''Building gems with native extensions for linux'' \<in> set (printed H st))
       \<and> (\<not> truthy (alwaysCrossCompileExtensions (config H)) \<longrightarrow>
            issued H st = [''bundle exec ruby'']
            \<and> ''Building gems with native extensions for linux'' \<notin> set (printed H st))
       \<and> (\<forall>v. env_CROSS_COMPILE_EXTENSIONS H = Some v \<and> \<not> affirmative v \<longrightarrow>
            \<not> truthy (alwaysCrossCompileExtensions (config H)))
       \<and> \<not> affirmative ''no''"
proof (intro conjI impI allI)
  define st5 where "st5 = (prepare_package H st)\<lparr>cmds := cmds st @ [''bundle exec ruby'']\<rparr>"
  obtain W where W: "logs (warnOnUnsupportedRuntime H st) = logs st @ W"
    "''Building gems with native extensions for linux'' \<notin> set W"
    using warn_logs by blast
  have l5: "logs st5 = logs st @ W" and c5: "cmds st5 = cmds st @ [''bundle exec ruby'']"
    using W by (simp_all add: st5_def)
  {
    assume t: "truthy (alwaysCrossCompileExtensions (config H))"
    obtain nm pth img mid where m: "cmds (snd (nativeLinuxBundle H st5))
       = cmds st5 @ docker_create nm pth img # mid @ [docker_rm nm]"
      using nativeLinuxBundle_cmds_ex by blast
    obtain L where L: "logs (snd (nativeLinuxBundle H st5))
         = logs st5 @ ''Building gems with native extensions for linux'' # L"
      using nativeLinuxBundle_logs by blast
    obtain E where E: "logs (emit_includes H gems (snd (nativeLinuxBundle H st5)))
         = logs (snd (nativeLinuxBundle H st5)) @ E"
      using emit_includes_logs by blast
    have s: "snd (beforePackage H st) =
        (case fst (nativeLinuxBundle H st5) of
           Inl e \<Rightarrow> snd (nativeLinuxBundle H st5)
         | Inr u \<Rightarrow> emit_includes H gems (snd (nativeLinuxBundle H st5)))"
      using assms t by (simp add: beforePackage_unfold Let_def st5_def [symmetric] split: sum.splits)
    have "cmds (snd (beforePackage H st)) = cmds st @ ''bundle exec ruby'' # docker_create nm pth img # mid @ [docker_rm nm]"
      using m c5 by (simp add: s split: sum.splits)
    then have "issued H st = ''bundle exec ruby'' # docker_create nm pth img # mid @ [docker_rm nm]"
      by (simp add: issued_def)
    then show "\<exists>nm pth img mid. issued H st
                 = ''bundle exec ruby'' # docker_create nm pth img # mid @ [docker_rm nm]"
      by blast
    have "\<exists>X. logs (snd (beforePackage H st)) = logs st @ W @ ''Building gems with native extensions for linux'' # X"
      using L E l5 by (simp add: s split: sum.splits)
    then obtain X where "printed H st = W @ ''Building gems with native extensions for linux'' # X"
      by (auto simp: printed_def)
    then show "''Building gems with native extensions for linux'' \<in> set (printed H st)"
      by simp
  }
  {
    assume t: "\<not> truthy (alwaysCrossCompileExtensions (config H))"
    have s: "snd (beforePackage H st) = emit_includes H gems st5"
      using assms t by (simp add: beforePackage_unfold Let_def st5_def [symmetric])
    show "issued H st = [''bundle exec ruby'']"
      using c5 by (simp add: issued_def s)
    obtain E where E: "logs (emit_includes H gems st5) = logs st5 @ E"
      "''Building gems with native extensions for linux'' \<notin> set E"
      using emit_includes_logs by blast
    then have "printed H st = W @ E" using l5 by (simp add: printed_def s)
    with W(2) E(2) show "''Building gems with native extensions for linux'' \<notin> set (printed H st)"
      by simp
  }
  {
    fix v assume "env_CROSS_COMPILE_EXTENSIONS H = Some v \<and> \<not> affirmative v"
    then show "\<not> truthy (alwaysCrossCompileExtensions (config H))"
      by (simp add: config_def Let_def)
  }
  show "\<not> affirmative ''no''"
    by (simp add: affirmative_def lower_ascii_def)
qed

theorem orchestrator_iff_toggle_witness:
  "issued no_cross_host fresh = [''bundle exec ruby'']
   \<and> ''Building gems with native extensions for linux'' \<notin> set (printed no_cross_host fresh)
   \<and> ''Building gems with native extensions for linux'' \<in> set (printed example_host fresh)"
  using orchestrator_iff_toggle [OF no_cross_run(1,2)] no_cross_run(3)
    orchestrator_iff_toggle [OF example_run(1,2)] example_config(2)
  by blast

subsection \<open>C5: the exclude list\<close>

text \<open>
  C5: after the hook, however it ends and whatever Bundler answered, the exclude list is
  the single pattern \<open>**\<close>; read in the order of the host framework, the rules start
  with this exclusion and everything after it comes from the include list.
\<close>

theorem exclude_all_first:
  "pkg_exclude (package (snd (beforePackage H st))) = [''**'']
   \<and> rule_sequence (package (snd (beforePackage H st)))
       = (True, ''**'') # map (\<lambda>x. if take 1 x = ''!'' then (True, drop 1 x) else (False, x))
                            (pkg_include (package (snd (beforePackage H st))))"
  by (simp add: rule_sequence_def beforePackage_exclude)

theorem exclude_all_first_witness:
  "pkg_exclude (package (snd (beforePackage example_host fresh))) = [''**'']
   \<and> hd (rule_sequence (package (snd (beforePackage example_host fresh)))) = (True, ''**'')"
  using exclude_all_first [of example_host fresh] by simp

subsection \<open>C6: a gem's files before its exclusions\<close>

text \<open>
  C6: in a run that succeeds, for every gem of the list the pattern
  \<open>gemRoot + path + "/**"\<close> occurs in the emitted patterns before the pattern
  \<open>"!" + gemRoot + path + "/.git/**"\<close> and, when \<open>excludeGemTests\<close> is truthy, before
  the \<open>/test/**\<close> and \<open>/spec/**\<close> exclusions of the same gem.
\<close>

theorem include_before_negations:
  assumes "shell H (cmds st) ''bundle exec ruby'' = ExitZero out"
    and "JSON_parse H out = Some gems"
    and "fst (beforePackage H st) = Inr ()"
    and "g \<in> set gems"
  shows "occurs_before (gemRoot H @ gem_path g @ ''/**'')
           (''!'' @ gemRoot H @ gem_path g @ ''/.git/**'') (emitted H st)
       \<and> (truthy (excludeGemTests (config H)) \<longrightarrow>
            occurs_before (gemRoot H @ gem_path g @ ''/**'')
              (''!'' @ gemRoot H @ gem_path g @ ''/test/**'') (emitted H st)
          \<and> occurs_before (gemRoot H @ gem_path g @ ''/**'')
              (''!'' @ gemRoot H @ gem_path g @ ''/spec/**'') (emitted H st))"
proof -
  define P where "P = (if truthy (standalone (config H)) then [''vendor/bundle/bundler/**'']
            else [''.bundle/config''])"
  have e: "emitted H st = P @ concat (map (gem_patterns H) gems)"
    unfolding P_def by (rule emitted_ok [OF assms(1-3)])
  have "occurs_before (gemRoot H @ gem_path g @ ''/**'')
           (''!'' @ gemRoot H @ gem_path g @ ''/.git/**'') (P @ concat (map (gem_patterns H) gems))"
    by (rule occurs_before_in_concat [OF assms(4) gem_patterns_order(1)])
  moreover have "occurs_before (gemRoot H @ gem_path g @ ''/**'')
           (''!'' @ gemRoot H @ gem_path g @ ''/test/**'') (P @ concat (map (gem_patterns H) gems))"
    if "truthy (excludeGemTests (config H))"
    by (rule occurs_before_in_concat [OF assms(4) gem_patterns_order(2) [OF that]])
  moreover have "occurs_before (gemRoot H @ gem_path g @ ''/**'')
           (''!'' @ gemRoot H @ gem_path g @ ''/spec/**'') (P @ concat (map (gem_patterns H) gems))"
    if "truthy (excludeGemTests (config H))"
    by (rule occurs_before_in_concat [OF assms(4) gem_patterns_order(3) [OF that]])
  ultimately show ?thesis unfolding e by blast
qed

theorem include_before_negations_witness:
  "occurs_before (gemRoot example_host @ gem_path nokogiri @ ''/**'')
     (''!'' @ gemRoot example_host @ gem_path nokogiri @ ''/.git/**'') (emitted example_host fresh)
   \<and> occurs_before (gemRoot example_host @ gem_path nokogiri @ ''/**'')
     (''!'' @ gemRoot example_host @ gem_path nokogiri @ ''/test/**'') (emitted example_host fresh)
   \<and> occurs_before (gemRoot example_host @ gem_path nokogiri @ ''/**'')
     (''!'' @ gemRoot example_host @ gem_path nokogiri @ ''/spec/**'') (emitted example_host fresh)"
proof -
  have "nokogiri \<in> set [nokogiri, rake]" by simp
  from include_before_negations [OF example_run this] example_config(3)
  show ?thesis by blast
qed

subsection \<open>C7: gemspec patterns\<close>

text \<open>
  C7: in a run that succeeds, in standalone mode the emitted patterns are the bootstrap
  pattern followed, gem by gem, by the files pattern, the extension pattern and the
  exclusions, with no gemspec pattern; so no \<open>gemRoot + gemspec\<close> of a gem is among
  them (a gemspec path holding no \<open>*\<close>, which keeps it apart from the glob of another
  gem). Outside standalone mode \<open>gemRoot + gemspec\<close> is among them for every gem.
\<close>

theorem gemspec_rules_iff_not_standalone:
  assumes "shell H (cmds st) ''bundle exec ruby'' = ExitZero out"
    and "JSON_parse H out = Some gems"
    and "fst (beforePackage H st) = Inr ()"
  shows "(truthy (standalone (config H)) \<longrightarrow>
            emitted H st = ''vendor/bundle/bundler/**'' #
              concat (map (\<lambda>g.
                [gemRoot H @ gem_path g @ ''/**'']
                @ (if gem_extensions g then [extensionDir H @ ''/'' @ gem_name g @ ''/**''] else [])
                @ [''!'' @ gemRoot H @ gem_path g @ ''/.git/**'']
                @ (if truthy (excludeGemTests (config H))
                   then [''!'' @ gemRoot H @ gem_path g @ ''/test/**'',
                         ''!'' @ gemRoot H @ gem_path g @ ''/spec/**'']
                   else [])) gems)
          \<and> ((\<forall>g\<in>set gems. CHR ''*'' \<notin> set (gem_gemspec g)) \<longrightarrow>
               (\<forall>g\<in>set gems. gemRoot H @ gem_gemspec g \<notin> set (emitted H st))))
       \<and> (\<not> truthy (standalone (config H)) \<longrightarrow>
            (\<forall>g\<in>set gems. gemRoot H @ gem_gemspec g \<in> set (emitted H st)))"
proof (intro conjI impI)
  assume s: "truthy (standalone (config H))"
  have fe: "gem_patterns H = (\<lambda>g.
                [gemRoot H @ gem_path g @ ''/**'']
                @ (if gem_extensions g then [extensionDir H @ ''/'' @ gem_name g @ ''/**''] else [])
                @ [''!'' @ gemRoot H @ gem_path g @ ''/.git/**'']
                @ (if truthy (excludeGemTests (config H))
                   then [''!'' @ gemRoot H @ gem_path g @ ''/test/**'',
                         ''!'' @ gemRoot H @ gem_path g @ ''/spec/**'']
                   else []))"
    by (rule ext) (rule gem_patterns_standalone [OF s])
  show "emitted H st = ''vendor/bundle/bundler/**'' #
              concat (map (\<lambda>g.
                [gemRoot H @ gem_path g @ ''/**'']
                @ (if gem_extensions g then [extensionDir H @ ''/'' @ gem_name g @ ''/**''] else [])
                @ [''!'' @ gemRoot H @ gem_path g @ ''/.git/**'']
                @ (if truthy (excludeGemTests (config H))
                   then [''!'' @ gemRoot H @ gem_path g @ ''/test/**'',
                         ''!'' @ gemRoot H @ gem_path g @ ''/spec/**'']
                   else [])) gems)"
    unfolding emitted_ok [OF assms] using s by (subst fe) simp
next
  assume s: "truthy (standalone (config H))"
    and ns: "\<forall>g\<in>set gems. CHR ''*'' \<notin> set (gem_gemspec g)"
  have star: "CHR ''*'' \<in> set x" if "x \<in> set (emitted H st)" for x
    using that s gem_patterns_standalone_star [OF s]
    by (auto simp: emitted_ok [OF assms])
  show "\<forall>g\<in>set gems. gemRoot H @ gem_gemspec g \<notin> set (emitted H st)"
  proof
    fix g assume "g \<in> set gems"
    with ns have "CHR ''*'' \<notin> set (gemRoot H @ gem_gemspec g)"
      using gemRoot_no_star [of H] by simp
    with star show "gemRoot H @ gem_gemspec g \<notin> set (emitted H st)" by blast
  qed
next
  assume s: "\<not> truthy (standalone (config H))"
  show "\<forall>g\<in>set gems. gemRoot H @ gem_gemspec g \<in> set (emitted H st)"
  proof
    fix g assume g: "g \<in> set gems"
    have "gemRoot H @ gem_gemspec g \<in> set (gem_patterns H g)"
      using s by (simp add: gem_patterns_def)
    with g show "gemRoot H @ gem_gemspec g \<in> set (emitted H st)"
      by (auto simp: emitted_ok [OF assms])
  qed
qed

theorem gemspec_rules_iff_not_standalone_witness:
  "gemRoot standalone_host @ gem_gemspec nokogiri \<notin> set (emitted standalone_host fresh)
   \<and> gemRoot standalone_host @ gem_gemspec rake \<notin> set (emitted standalone_host fresh)
   \<and> gemRoot example_host @ gem_gemspec nokogiri \<in> set (emitted example_host fresh)
   \<and> gemRoot example_host @ gem_gemspec rake \<in> set (emitted example_host fresh)"
proof -
  have "\<forall>g\<in>set [nokogiri, rake]. CHR ''*'' \<notin> set (gem_gemspec g)"
    by (simp add: nokogiri_def rake_def)
  with gemspec_rules_iff_not_standalone [OF standalone_run(1-3)] standalone_run(4)
  have a: "\<forall>g\<in>set [nokogiri, rake].
             gemRoot standalone_host @ gem_gemspec g \<notin> set (emitted standalone_host fresh)"
    by blast
  from gemspec_rules_iff_not_standalone [OF example_run] example_config(1)
  have b: "\<forall>g\<in>set [nokogiri, rake].
             gemRoot example_host @ gem_gemspec g \<in> set (emitted example_host fresh)"
    by blast
  from a b show ?thesis by simp
qed

subsection \<open>C8: bootstrap directory or \<open>.bundle/config\<close>\<close>

text \<open>
  C8: in a run that succeeds, \<open>vendor/bundle/bundler/**\<close> is among the emitted patterns
  exactly in standalone mode, and \<open>.bundle/config\<close> exactly outside it; whichever is
  emitted is emitted once.
\<close>

theorem bootstrap_iff_standalone:
  assumes "shell H (cmds st) ''bundle exec ruby'' = ExitZero out"
    and "JSON_parse H out = Some gems"
    and "fst (beforePackage H st) = Inr ()"
  shows "(''vendor/bundle/bundler/**'' \<in> set (emitted H st)) = truthy (standalone (config H))
       \<and> (''.bundle/config'' \<in> set (emitted H st)) = (\<not> truthy (standalone (config H)))
       \<and> count_list (emitted H st) ''vendor/bundle/bundler/**''
            = (if truthy (standalone (config H)) then 1 else 0)
       \<and> count_list (emitted H st) ''.bundle/config''
            = (if truthy (standalone (config H)) then 0 else 1)"
proof -
  have a: "count_list (concat (map (gem_patterns H) gems)) ''vendor/bundle/bundler/**'' = 0"
    by (rule count_list_concat_zero) (use gem_patterns_not_global in blast)
  have b: "count_list (concat (map (gem_patterns H) gems)) ''.bundle/config'' = 0"
    by (rule count_list_concat_zero) (use gem_patterns_not_global in blast)
  have c: "count_list (emitted H st) ''vendor/bundle/bundler/**''
            = (if truthy (standalone (config H)) then 1 else 0)"
    using a by (simp add: emitted_ok [OF assms])
  have d: "count_list (emitted H st) ''.bundle/config''
            = (if truthy (standalone (config H)) then 0 else 1)"
    using b by (simp add: emitted_ok [OF assms])
  have "(''vendor/bundle/bundler/**'' \<in> set (emitted H st)) = truthy (standalone (config H))"
    using c count_list_0_iff [of "emitted H st" "''vendor/bundle/bundler/**''"] by (auto split: if_splits)
  moreover have "(''.bundle/config'' \<in> set (emitted H st)) = (\<not> truthy (standalone (config H)))"
    using d count_list_0_iff [of "emitted H st" "''.bundle/config''"] by (auto split: if_splits)
  ultimately show ?thesis using c d by blast
qed

theorem bootstrap_iff_standalone_witness:
  "''vendor/bundle/bundler/**'' \<in> set (emitted standalone_host fresh)
   \<and> ''.bundle/config'' \<notin> set (emitted standalone_host fresh)
   \<and> ''.bundle/config'' \<in> set (emitted example_host fresh)
   \<and> ''vendor/bundle/bundler/**'' \<notin> set (emitted example_host fresh)"
  using bootstrap_iff_standalone [OF standalone_run(1-3)] standalone_run(4)
    bootstrap_iff_standalone [OF example_run] example_config(1)
  by simp

subsection \<open>C9: the container object\<close>

text \<open>
  C9 says that \<open>tempContainer\<close> builds the container object on its first call and
  returns that same object on every later call. The function tests and sets
  \<open>this.config.tempContainer\<close>, but \<open>config\<close> is a getter that builds a new object each
  time, so the test never finds what an earlier call has set. In \<open>example_host\<close> the
  first call returns the object at address 0, the second call builds another object, at
  address 1, and the store holds two.
\<close>

theorem tempContainer_rebuilt_on_second_call:
  "cfg_tempContainer (config example_host) = JUndefined
   \<and> fst (tempContainer example_host fresh) = JObj 0
   \<and> fst (tempContainer example_host (snd (tempContainer example_host fresh))) = JObj 1
   \<and> length (heap (snd (tempContainer example_host (snd (tempContainer example_host fresh))))) = 2"
  by (simp add: tempContainer_def config_def assign_def example_host_def fresh_def Let_def)

subsection \<open>C10: the environment variable replaces the option\<close>

text \<open>
  C10: when \<open>CROSS_COMPILE_EXTENSIONS\<close> is defined with value \<open>v\<close>,
  \<open>alwaysCrossCompileExtensions\<close> of the configuration is the boolean "\<open>v\<close> matches the
  pattern", whatever the user has written: false for every value that does not match,
  the empty string among them, and true for \<open>y\<close>.
\<close>

theorem env_override_replaces_option:
  assumes "env_CROSS_COMPILE_EXTENSIONS H = Some v"
  shows "alwaysCrossCompileExtensions (config H) = JBool (affirmative v)
       \<and> (\<not> affirmative v \<longrightarrow> \<not> truthy (alwaysCrossCompileExtensions (config H)))
       \<and> \<not> affirmative '''' \<and> affirmative ''y''"
  using assms by (simp add: config_def Let_def affirmative_def lower_ascii_def)

theorem env_override_replaces_option_witness:
  "u_alwaysCrossCompileExtensions (the (rubyPackage override_host)) = Some (JBool True)
   \<and> alwaysCrossCompileExtensions (config override_host) = JBool False"
  using env_override_replaces_option [of override_host "''''"]
  by (simp add: override_host_def no_options_def example_host_def)

end
